theory Spec2Isabelle
  imports Complex_Main "HOL-Library.Multiset"
begin

section \<open>The cart page: data model\<close>

text \<open>
  The development embeds \<^verbatim>\<open>src/refactoring3/components/CartPage.tsx\<close>: the three
  helper functions of the page component (\<^verbatim>\<open>getMaxDiscount\<close>,
  \<^verbatim>\<open>getRemainingStock\<close>, \<^verbatim>\<open>getAppliedDiscount\<close>), the buttons of the
  catalog pane and of a cart line, and the two selection widgets
  (\<^verbatim>\<open>ApplyMembership\<close>, \<^verbatim>\<open>ApplyCoupon\<close>).
\<close>

subsection \<open>Numbers\<close>

text \<open>
  A discount rate is a JavaScript \<^verbatim>\<open>number\<close>. The page only compares rates and
  takes \<^verbatim>\<open>Math.max\<close> of them, and both operations are exact on every double, so
  a rate is modelled by its value: a finite value (a real; the doubles are a subset),
  one of the two infinities, or \<^verbatim>\<open>NaN\<close>. The two zeros \<^verbatim>\<open>+0\<close> and
  \<^verbatim>\<open>-0\<close> are one value here: they are equal under \<^verbatim>\<open>===\<close> and under every
  comparison, and a \<^verbatim>\<open>Math.max\<close> that has \<^verbatim>\<open>+0\<close> among its arguments never
  returns \<^verbatim>\<open>-0\<close>.

  Stock levels, quantities and discount values are counts and amounts, modelled as
  \<^typ>\<open>int\<close>; subtraction does not truncate at zero. The page subtracts them and
  adds or subtracts one in double arithmetic. That agrees with the arithmetic of
  \<^typ>\<open>int\<close> as long as the operands and the result are safe integers, of magnitude
  at most \<^verbatim>\<open>2^53 - 1\<close> (\<^verbatim>\<open>Number.MAX_SAFE_INTEGER\<close>); beyond that bound a double
  sum or difference is rounded, and the integer model no longer follows the code. The
  theorems on the value of such a sum or difference, and on the text of a discount
  value, therefore carry the bound as a hypothesis. The theorem on the add-to-cart
  button reads only the sign of a difference, which rounding keeps. A quantity that is
  no integer (a fraction, \<^verbatim>\<open>NaN\<close>) is outside the model, and outside that
  hypothesis.
\<close>

datatype jsnum = NaN | NegInfinity | Fin real | Infinity

text \<open>\<^verbatim>\<open>Number.isSafeInteger\<close>, on an integer.\<close>

definition isSafeInteger :: "int \<Rightarrow> bool" where
  "isSafeInteger n = (- 9007199254740991 \<le> n \<and> n \<le> 9007199254740991)"

text \<open>The comparison \<^verbatim>\<open>a <= b\<close>: false as soon as one side is \<^verbatim>\<open>NaN\<close>.\<close>

fun js_le :: "jsnum \<Rightarrow> jsnum \<Rightarrow> bool" where
  "js_le NaN b = False"
| "js_le a NaN = False"
| "js_le NegInfinity b = True"
| "js_le a Infinity = True"
| "js_le (Fin x) (Fin y) = (x \<le> y)"
| "js_le a b = False"

text \<open>
  \<^verbatim>\<open>Math.max(a, b)\<close>: \<^verbatim>\<open>NaN\<close> if either argument is \<^verbatim>\<open>NaN\<close>, the larger
  argument otherwise.
\<close>

definition Math_max :: "jsnum \<Rightarrow> jsnum \<Rightarrow> jsnum" where
  "Math_max a b = (if a = NaN \<or> b = NaN then NaN else if js_le a b then b else a)"

subsection \<open>Entities\<close>

text \<open>
  Modelled from the spec: the entity types \<^verbatim>\<open>Product\<close>, \<^verbatim>\<open>CartItem\<close>,
  \<^verbatim>\<open>Membership\<close> and \<^verbatim>\<open>Coupon\<close> are declared in \<^verbatim>\<open>types.ts\<close>, which is
  not among the sources. Their fields are the ones of the data model of the
  specification that the page reads; a tier is the
  \<^verbatim>\<open>{ quantity: number; rate: number }\<close> that \<^verbatim>\<open>getMaxDiscount\<close> declares for its
  argument. An id, a name and a code are strings, and the discount type of a coupon is
  the string the page compares with \<^verbatim>\<open>'amount'\<close>. Field names carry a prefix for
  their type, since several types share the names \<^verbatim>\<open>name\<close>, \<^verbatim>\<open>code\<close>,
  \<^verbatim>\<open>quantity\<close> and \<^verbatim>\<open>discountValue\<close>.
\<close>

record Discount =
  d_quantity :: int
  d_rate :: jsnum

record Product =
  p_id :: string
  p_name :: string
  p_price :: int
  p_stock :: int
  p_discounts :: "Discount list"

record CartItem =
  ci_product :: Product
  ci_quantity :: int

record Membership =
  m_name :: string
  m_code :: string
  m_discountValue :: int

record Coupon =
  c_name :: string
  c_code :: string
  c_discountType :: string
  c_discountValue :: int

section \<open>Discount evaluation and stock\<close>

text \<open>
  \<^verbatim>\<open>discounts.reduce((max, discount) => Math.max(max, discount.rate), 0)\<close>
\<close>

definition getMaxDiscount :: "Discount list \<Rightarrow> jsnum" where
  "getMaxDiscount discounts =
     foldl (\<lambda>max discount. Math_max max (d_rate discount)) (Fin 0) discounts"

text \<open>
  \<^verbatim>\<open>cart.find((item) => item.product.id === product.id)\<close> is the first matching
  line or \<^verbatim>\<open>undefined\<close>; \<^verbatim>\<open>cartItem?.quantity || 0\<close> is \<^verbatim>\<open>0\<close> when there is
  no such line and when its quantity is falsy, which for an integer means zero. The cart
  of the enclosing component is a parameter. The difference is the one of the code when
  the stock, the quantity and the difference are safe integers.
\<close>

definition getRemainingStock :: "CartItem list \<Rightarrow> Product \<Rightarrow> int" where
  "getRemainingStock cart product =
     (let cartItem = find (\<lambda>item. p_id (ci_product item) = p_id product) cart
      in p_stock product -
           (case cartItem of
              None \<Rightarrow> 0
            | Some item \<Rightarrow> (if ci_quantity item = 0 then 0 else ci_quantity item)))"

text \<open>
  The \<^verbatim>\<open>for (const discount of discounts)\<close> loop of \<^verbatim>\<open>getAppliedDiscount\<close>,
  with the variable \<^verbatim>\<open>appliedDiscount\<close> as accumulator.
\<close>

fun appliedDiscountLoop :: "int \<Rightarrow> Discount list \<Rightarrow> jsnum \<Rightarrow> jsnum" where
  "appliedDiscountLoop quantity [] appliedDiscount = appliedDiscount"
| "appliedDiscountLoop quantity (discount # discounts) appliedDiscount =
     appliedDiscountLoop quantity discounts
       (if quantity \<ge> d_quantity discount
        then Math_max appliedDiscount (d_rate discount)
        else appliedDiscount)"

definition getAppliedDiscount :: "CartItem \<Rightarrow> jsnum" where
  "getAppliedDiscount item =
     appliedDiscountLoop (ci_quantity item) (p_discounts (ci_product item)) (Fin 0)"

text \<open>
  What the specification calls the maximum of a list of rates: a member of the list
  that every member is below, in the comparison of the language.
\<close>

definition maxRateOf :: "jsnum \<Rightarrow> jsnum list \<Rightarrow> bool" where
  "maxRateOf m rates = (m \<in> set rates \<and> (\<forall>r \<in> set rates. js_le r m))"

text \<open>A rate is a fraction when it lies between 0 and 1.\<close>

definition isFraction :: "jsnum \<Rightarrow> bool" where
  "isFraction r = (js_le (Fin 0) r \<and> js_le r (Fin 1))"

section \<open>Text\<close>

text \<open>
  Strings are sequences of bytes, the UTF-8 encoding of the text of the page. The
  Korean captions are written out byte by byte.
\<close>

definition text_won :: string where
  \<comment> \<open>the currency suffix, U+C6D0\<close>
  "text_won = [CHR 0xEC, CHR 0x9B, CHR 0x90]"

definition text_addToCart :: string where
  \<comment> \<open>the caption of the add-to-cart button\<close>
  "text_addToCart =
     [CHR 0xEC, CHR 0x9E, CHR 0xA5, CHR 0xEB, CHR 0xB0, CHR 0x94, CHR 0xEA, CHR 0xB5, CHR 0xAC,
      CHR 0xEB, CHR 0x8B, CHR 0x88, CHR 0xEC, CHR 0x97, CHR 0x90, CHR 0x20, CHR 0xEC, CHR 0xB6,
      CHR 0x94, CHR 0xEA, CHR 0xB0, CHR 0x80]"

definition text_soldOut :: string where
  \<comment> \<open>the sold-out caption, U+D488 U+C808\<close>
  "text_soldOut = [CHR 0xED, CHR 0x92, CHR 0x88, CHR 0xEC, CHR 0xA0, CHR 0x88]"

definition text_delete :: string where
  \<comment> \<open>the caption of the delete button, U+C0AD U+C81C\<close>
  "text_delete = [CHR 0xEC, CHR 0x82, CHR 0xAD, CHR 0xEC, CHR 0xA0, CHR 0x9C]"

definition text_selectMembership :: string where
  \<comment> \<open>the caption of the blank membership option\<close>
  "text_selectMembership =
     [CHR 0xED, CHR 0x9A, CHR 0x8C, CHR 0xEC, CHR 0x9B, CHR 0x90, CHR 0x20, CHR 0xEB, CHR 0x93,
      CHR 0xB1, CHR 0xEA, CHR 0xB8, CHR 0x89, CHR 0x20, CHR 0xEC, CHR 0x84, CHR 0xA0, CHR 0xED,
      CHR 0x83, CHR 0x9D]"

definition text_selectCoupon :: string where
  \<comment> \<open>the caption of the blank coupon option\<close>
  "text_selectCoupon =
     [CHR 0xEC, CHR 0xBF, CHR 0xA0, CHR 0xED, CHR 0x8F, CHR 0xB0, CHR 0x20, CHR 0xEC, CHR 0x84,
      CHR 0xA0, CHR 0xED, CHR 0x83, CHR 0x9D]"

definition text_appliedCoupon :: string where
  \<comment> \<open>the words before the name in the applied-coupon line, ending in a colon and a space\<close>
  "text_appliedCoupon =
     [CHR 0xEC, CHR 0xA0, CHR 0x81, CHR 0xEC, CHR 0x9A, CHR 0xA9, CHR 0xEB, CHR 0x90, CHR 0x9C,
      CHR 0x20, CHR 0xEC, CHR 0xBF, CHR 0xA0, CHR 0xED, CHR 0x8F, CHR 0xB0, CHR 0x3A, CHR 0x20]"

definition text_discountClose :: string where
  \<comment> \<open>the word after the label in the applied-coupon line, U+D560 U+C778 and a closing parenthesis\<close>
  "text_discountClose = [CHR 0xED, CHR 0x95, CHR 0xA0, CHR 0xEC, CHR 0x9D, CHR 0xB8, CHR 0x29]"

subsection \<open>Numbers as text\<close>

text \<open>
  A template literal and a \<^verbatim>\<open>value\<close> attribute turn a number into text with the
  \<^verbatim>\<open>ToString\<close> of the language. On a safe integer that is its decimal numeral,
  with a minus sign when negative, which is what \<open>numberToString\<close> below writes. Beyond
  \<^verbatim>\<open>2^53\<close> the language prints the shortest digits that read back as the same
  double, and exponent notation from \<^verbatim>\<open>10^21\<close>; the function does not follow it
  there. Array positions are below \<^verbatim>\<open>2^32\<close>.
\<close>

definition digitChar :: "nat \<Rightarrow> char" where
  "digitChar d = char_of (48 + d)"

function natToString :: "nat \<Rightarrow> string" where
  "natToString n =
     (if n < 10 then [digitChar n] else natToString (n div 10) @ [digitChar (n mod 10)])"
  by pat_completeness auto
termination
  by (relation "measure (\<lambda>n. n)") auto

declare natToString.simps [simp del]

definition numberToString :: "int \<Rightarrow> string" where
  "numberToString n =
     (if n < 0 then CHR ''-'' # natToString (nat (- n)) else natToString (nat n))"

subsection \<open>Parsing an integer\<close>

text \<open>
  \<^verbatim>\<open>parseInt(string)\<close> with no radix, after the language standard: skip leading
  white space, read an optional sign, switch to radix 16 after a prefix \<^verbatim>\<open>0x\<close> or
  \<^verbatim>\<open>0X\<close>, take the longest run of digits of the radix, and return \<^verbatim>\<open>NaN\<close> when
  the run is empty. The result is \<open>None\<close> for \<^verbatim>\<open>NaN\<close> and the integer otherwise.
  The language rounds an integer beyond \<^verbatim>\<open>2^53\<close> to a double; rounding is
  monotone and an array length is below \<^verbatim>\<open>2^32\<close>, so it never moves a position
  into the range of an array. \<^verbatim>\<open>-0\<close> is \<open>0\<close>, as it is for an array index.
\<close>

text \<open>
  The number of bytes of the white-space character a string starts with, or 0. White
  space is TAB, LF, VT, FF, CR, SP, U+00A0, U+1680, U+2000 to U+200A, U+2028, U+2029,
  U+202F, U+205F, U+3000 and U+FEFF.
\<close>

definition whiteSpaceLength :: "string \<Rightarrow> nat" where
  "whiteSpaceLength s =
     (let b = map of_char s :: nat list in
      if take 1 b \<in> set [[0x09], [0x0A], [0x0B], [0x0C], [0x0D], [0x20]] then 1
      else if take 2 b = [0xC2, 0xA0] then 2
      else if take 3 b \<in> set ([[0xE1, 0x9A, 0x80], [0xE2, 0x80, 0xA8], [0xE2, 0x80, 0xA9],
                                [0xE2, 0x80, 0xAF], [0xE2, 0x81, 0x9F], [0xE3, 0x80, 0x80],
                                [0xEF, 0xBB, 0xBF]]
                               @ map (\<lambda>k. [0xE2, 0x80, k]) [0x80 ..< 0x8B])
      then 3
      else 0)"

function trimStart :: "string \<Rightarrow> string" where
  "trimStart s =
     (if whiteSpaceLength s = 0 then s else trimStart (drop (whiteSpaceLength s) s))"
  by pat_completeness auto
termination
proof (relation "measure length")
  show "wf (measure length)"
    by simp
next
  fix s :: string
  assume "whiteSpaceLength s \<noteq> 0"
  then have "0 < whiteSpaceLength s" "s \<noteq> []"
    by (auto simp: whiteSpaceLength_def)
  then show "(drop (whiteSpaceLength s) s, s) \<in> measure length"
    by simp
qed

declare trimStart.simps [simp del]

text \<open>The value of a digit or letter, for radices up to 36.\<close>

definition digitValue :: "char \<Rightarrow> nat option" where
  "digitValue c =
     (let n = of_char c :: nat in
      if 48 \<le> n \<and> n \<le> 57 then Some (n - 48)
      else if 97 \<le> n \<and> n \<le> 122 then Some (n - 87)
      else if 65 \<le> n \<and> n \<le> 90 then Some (n - 55)
      else None)"

definition isRadixDigit :: "nat \<Rightarrow> char \<Rightarrow> bool" where
  "isRadixDigit R c = (case digitValue c of None \<Rightarrow> False | Some v \<Rightarrow> v < R)"

definition digitsValue :: "nat \<Rightarrow> string \<Rightarrow> nat" where
  "digitsValue R Z = foldl (\<lambda>acc c. acc * R + the (digitValue c)) 0 Z"

definition parseInt :: "string \<Rightarrow> int option" where
  "parseInt inputString =
     (let S = trimStart inputString;
          sign = (if S \<noteq> [] \<and> hd S = CHR ''-'' then - 1 else 1 :: int);
          S = (if S \<noteq> [] \<and> (hd S = CHR ''+'' \<or> hd S = CHR ''-'') then tl S else S);
          hex = (take 2 S = ''0x'' \<or> take 2 S = ''0X'');
          R = (if hex then 16 else 10);
          S = (if hex then drop 2 S else S);
          Z = takeWhile (isRadixDigit R) S
      in if Z = [] then None else Some (sign * int (digitsValue R Z)))"

section \<open>Rendering and events\<close>

text \<open>
  The calls a click handler makes on the operations of \<^verbatim>\<open>useCart\<close>; the hook
  itself is outside this file.
\<close>

datatype CartRequest =
    AddToCart Product
  | RemoveFromCart string
  | UpdateQuantity string int

record Button =
  onClick :: CartRequest
  className :: string
  disabled :: bool
  label :: string

text \<open>The button of a product card; \<^verbatim>\<open>remainingStock\<close> is computed once per card.\<close>

definition addToCartButton :: "CartItem list \<Rightarrow> Product \<Rightarrow> Button" where
  "addToCartButton cart product =
     (let remainingStock = getRemainingStock cart product
      in \<lparr> onClick = AddToCart product,
           className = ''w-full rounded px-3 py-1 '' @
             (if remainingStock > 0
              then ''bg-blue-500 text-white hover:bg-blue-600''
              else ''cursor-not-allowed bg-gray-300 text-gray-500''),
           disabled = (remainingStock \<le> 0),
           label = (if remainingStock > 0 then text_addToCart else text_soldOut) \<rparr>)"

text \<open>
  The three buttons of a cart line; none of them has a \<^verbatim>\<open>disabled\<close> attribute. The
  quantity a control asks for is the one of the code when the quantity of the line is a
  safe integer.
\<close>

definition decrementButton :: "CartItem \<Rightarrow> Button" where
  "decrementButton item =
     \<lparr> onClick = UpdateQuantity (p_id (ci_product item)) (ci_quantity item - 1),
       className = ''mr-1 rounded bg-gray-300 px-2 py-1 text-gray-800 hover:bg-gray-400'',
       disabled = False,
       label = ''-'' \<rparr>"

definition incrementButton :: "CartItem \<Rightarrow> Button" where
  "incrementButton item =
     \<lparr> onClick = UpdateQuantity (p_id (ci_product item)) (ci_quantity item + 1),
       className = ''mr-1 rounded bg-gray-300 px-2 py-1 text-gray-800 hover:bg-gray-400'',
       disabled = False,
       label = ''+'' \<rparr>"

definition removeButton :: "CartItem \<Rightarrow> Button" where
  "removeButton item =
     \<lparr> onClick = RemoveFromCart (p_id (ci_product item)),
       className = ''rounded bg-red-500 px-2 py-1 text-white hover:bg-red-600'',
       disabled = False,
       label = text_delete \<rparr>"

subsection \<open>Selection widgets\<close>

record SelectOption =
  opt_value :: string
  opt_text :: string

text \<open>
  The options of the membership selector: the blank option, then one option per
  membership whose value is the position of the membership in the array.
\<close>

definition membershipOptions :: "Membership list \<Rightarrow> SelectOption list" where
  "membershipOptions memberships =
     \<lparr> opt_value = [], opt_text = text_selectMembership \<rparr> #
     map (\<lambda>(i, m). \<lparr> opt_value = numberToString (int i),
                      opt_text = m_name m @ '' - '' @ numberToString (m_discountValue m) @ ''%'' \<rparr>)
         (enumerate 0 memberships)"

definition couponOptions :: "Coupon list \<Rightarrow> SelectOption list" where
  "couponOptions coupons =
     \<lparr> opt_value = [], opt_text = text_selectCoupon \<rparr> #
     map (\<lambda>(index, coupon).
            \<lparr> opt_value = numberToString (int index),
              opt_text = c_name coupon @ '' -'' @ '' '' @
                (if c_discountType coupon = ''amount''
                 then numberToString (c_discountValue coupon) @ text_won
                 else numberToString (c_discountValue coupon) @ ''%'') \<rparr>)
         (enumerate 0 coupons)"

text \<open>
  The confirmation line below the coupon selector; nothing is rendered when
  \<^verbatim>\<open>selectedCoupon\<close> is \<^verbatim>\<open>null\<close>.
\<close>

definition appliedCouponLine :: "Coupon option \<Rightarrow> string option" where
  "appliedCouponLine selectedCoupon =
     (case selectedCoupon of
        None \<Rightarrow> None
      | Some coupon \<Rightarrow>
          Some (text_appliedCoupon @ c_name coupon @ ''('' @
                (if c_discountType coupon = ''amount''
                 then numberToString (c_discountValue coupon) @ text_won
                 else numberToString (c_discountValue coupon) @ ''%'') @
                '' '' @ text_discountClose))"

text \<open>
  \<^verbatim>\<open>array[n]\<close> for a number \<^verbatim>\<open>n\<close>: the element when \<^verbatim>\<open>n\<close> is a position of
  the array, \<^verbatim>\<open>undefined\<close> (here \<open>None\<close>) for \<^verbatim>\<open>NaN\<close> and every other number.
\<close>

fun arrayAt :: "'a list \<Rightarrow> int option \<Rightarrow> 'a option" where
  "arrayAt xs None = None"
| "arrayAt xs (Some n) = (if 0 \<le> n \<and> n < int (length xs) then Some (xs ! nat n) else None)"

text \<open>
  \<^verbatim>\<open>x || null\<close> for an array element: an object is truthy and stays, \<^verbatim>\<open>undefined\<close>
  becomes \<^verbatim>\<open>null\<close> (\<open>None\<close> in the result).
\<close>

definition orNull :: "'a option \<Rightarrow> 'a option" where
  "orNull x = (case x of None \<Rightarrow> None | Some obj \<Rightarrow> Some obj)"

text \<open>
  The change handlers, given the \<^verbatim>\<open>value\<close> of the option that was chosen
  (\<^verbatim>\<open>e.target.value\<close>); the result is the argument handed to
  \<^verbatim>\<open>onMembershipChange\<close> and \<^verbatim>\<open>onCouponChange\<close>. The hook
  \<^verbatim>\<open>usePreservedCallback\<close> is outside this file; by its contract it returns a
  callback that runs the function it was given.
\<close>

definition ApplyMembership_handleChange :: "Membership list \<Rightarrow> string \<Rightarrow> Membership option" where
  "ApplyMembership_handleChange memberships v = orNull (arrayAt memberships (parseInt v))"

definition ApplyCoupon_handleChange :: "Coupon list \<Rightarrow> string \<Rightarrow> Coupon option" where
  "ApplyCoupon_handleChange coupons v = orNull (arrayAt coupons (parseInt v))"

section \<open>Scenario data\<close>

text \<open>
  The concrete values of the scenarios: a product with the tiers
  \<^verbatim>\<open>[{quantity: 2, rate: 0.1}, {quantity: 5, rate: 0.2}]\<close> and stock 3, a tier
  list with rates outside the unit interval, two coupons and two memberships.
\<close>

definition scenario_discounts :: "Discount list" where
  "scenario_discounts =
     [\<lparr>d_quantity = 2, d_rate = Fin 0.1\<rparr>, \<lparr>d_quantity = 5, d_rate = Fin 0.2\<rparr>]"

definition scenario_product :: Product where
  "scenario_product =
     \<lparr>p_id = ''p1'', p_name = ''Product 1'', p_price = 10000, p_stock = 3,
      p_discounts = scenario_discounts\<rparr>"

definition wild_discounts :: "Discount list" where
  "wild_discounts =
     [\<lparr>d_quantity = 1, d_rate = Fin (- 0.5)\<rparr>, \<lparr>d_quantity = 2, d_rate = NegInfinity\<rparr>,
      \<lparr>d_quantity = 3, d_rate = Fin 7\<rparr>]"

definition scenario_coupons :: "Coupon list" where
  "scenario_coupons =
     [\<lparr>c_name = ''Off 1000'', c_code = ''AMOUNT1000'', c_discountType = ''amount'',
       c_discountValue = 1000\<rparr>,
      \<lparr>c_name = ''Off 10'', c_code = ''PERCENT10'', c_discountType = ''percentage'',
       c_discountValue = 10\<rparr>]"

definition scenario_memberships :: "Membership list" where
  "scenario_memberships =
     [\<lparr>m_name = ''Silver'', m_code = ''SILVER'', m_discountValue = 3\<rparr>,
      \<lparr>m_name = ''Gold'', m_code = ''GOLD'', m_discountValue = 5\<rparr>]"

text \<open>A decimal digit, as \<^const>\<open>natToString\<close> writes it.\<close>

definition isDecimal :: "char \<Rightarrow> bool" where
  "isDecimal c = (\<exists>d<10. c = digitChar d)"

section \<open>Comparison and maximum\<close>

lemma js_le_refl: "a \<noteq> NaN \<Longrightarrow> js_le a a"
  by (cases a) simp_all

lemma js_le_not_NaN: "js_le a b \<Longrightarrow> a \<noteq> NaN \<and> b \<noteq> NaN"
  by (cases a; cases b) simp_all

lemma js_le_trans: "js_le a b \<Longrightarrow> js_le b c \<Longrightarrow> js_le a c"
  by (cases a; cases b; cases c) simp_all

lemma js_le_antisym: "js_le a b \<Longrightarrow> js_le b a \<Longrightarrow> a = b"
  by (cases a; cases b) simp_all

lemma js_le_total: "a \<noteq> NaN \<Longrightarrow> b \<noteq> NaN \<Longrightarrow> js_le a b \<or> js_le b a"
  by (cases a; cases b) auto

lemma Math_max_commute: "Math_max a b = Math_max b a"
  by (cases a; cases b) (auto simp: Math_max_def)

lemma Math_max_assoc: "Math_max (Math_max a b) c = Math_max a (Math_max b c)"
  by (cases a; cases b; cases c) (auto simp: Math_max_def)

lemma Math_max_NaN_iff: "Math_max a b = NaN \<longleftrightarrow> a = NaN \<or> b = NaN"
  by (auto simp: Math_max_def)

lemma Math_max_cases: "a \<noteq> NaN \<Longrightarrow> b \<noteq> NaN \<Longrightarrow> Math_max a b = a \<or> Math_max a b = b"
  by (auto simp: Math_max_def)

lemma Math_max_ge1: "a \<noteq> NaN \<Longrightarrow> b \<noteq> NaN \<Longrightarrow> js_le a (Math_max a b)"
  using js_le_total [of a b] by (auto simp: Math_max_def js_le_refl)

lemma Math_max_ge2: "a \<noteq> NaN \<Longrightarrow> b \<noteq> NaN \<Longrightarrow> js_le b (Math_max a b)"
  using js_le_total [of a b] by (auto simp: Math_max_def js_le_refl)

text \<open>
  Both functions fold \<^const>\<open>Math_max\<close> over a list of rates: all rates for
  \<^const>\<open>getMaxDiscount\<close>, the rates of the tiers whose threshold is met for
  \<^const>\<open>getAppliedDiscount\<close>.
\<close>

lemma foldl_rate:
  "foldl (\<lambda>m d. Math_max m (d_rate d)) acc ds = foldl Math_max acc (map d_rate ds)"
  by (induction ds arbitrary: acc) simp_all

lemma getMaxDiscount_foldl: "getMaxDiscount ds = foldl Math_max (Fin 0) (map d_rate ds)"
  by (simp add: getMaxDiscount_def foldl_rate)

lemma appliedDiscountLoop_foldl:
  "appliedDiscountLoop q ds acc =
     foldl Math_max acc (map d_rate (filter (\<lambda>d. d_quantity d \<le> q) ds))"
  by (induction ds arbitrary: acc) simp_all

text \<open>
  When no rate is \<^const>\<open>NaN\<close>, the fold returns the start value or a rate, and
  nothing in the list or the start value exceeds it.
\<close>

lemma foldl_Math_max_bounds:
  assumes "acc \<noteq> NaN" "\<forall>r \<in> set rates. r \<noteq> NaN"
  shows "foldl Math_max acc rates \<in> set (acc # rates) \<and>
         (\<forall>r \<in> set (acc # rates). js_le r (foldl Math_max acc rates))"
  using assms
proof (induction rates arbitrary: acc)
  case Nil
  then show ?case by (simp add: js_le_refl)
next
  case (Cons r rates)
  let ?acc' = "Math_max acc r"
  from Cons.prems have nn: "acc \<noteq> NaN" "r \<noteq> NaN" "\<forall>r \<in> set rates. r \<noteq> NaN"
    by simp_all
  then have acc': "?acc' \<noteq> NaN"
    by (simp add: Math_max_NaN_iff)
  from Cons.IH [OF acc' nn(3)]
  have mem: "foldl Math_max ?acc' rates \<in> set (?acc' # rates)"
    and ub: "\<forall>x \<in> set (?acc' # rates). js_le x (foldl Math_max ?acc' rates)"
    by simp_all
  from ub have top: "js_le ?acc' (foldl Math_max ?acc' rates)"
    by simp
  have "js_le acc (foldl Math_max ?acc' rates)"
    using js_le_trans [OF Math_max_ge1 [OF nn(1,2)] top] .
  moreover have "js_le r (foldl Math_max ?acc' rates)"
    using js_le_trans [OF Math_max_ge2 [OF nn(1,2)] top] .
  moreover have "foldl Math_max ?acc' rates \<in> set (acc # r # rates)"
    using mem Math_max_cases [OF nn(1,2)] by auto
  ultimately show ?case
    using ub by simp
qed

text \<open>Started at 0 over rates that are at least 0, the fold is 0 or the maximum.\<close>

lemma foldl_Math_max_zero:
  assumes "\<forall>r \<in> set rates. js_le (Fin 0) r"
  shows "(rates = [] \<longrightarrow> foldl Math_max (Fin 0) rates = Fin 0) \<and>
         (rates \<noteq> [] \<longrightarrow> maxRateOf (foldl Math_max (Fin 0) rates) rates)"
proof -
  let ?m = "foldl Math_max (Fin 0) rates"
  from assms have nn: "\<forall>r \<in> set rates. r \<noteq> NaN"
    using js_le_not_NaN by blast
  have b: "?m \<in> set (Fin 0 # rates)" "\<forall>r \<in> set (Fin 0 # rates). js_le r ?m"
    using foldl_Math_max_bounds [of "Fin 0" rates] nn by simp_all
  have "?m \<in> set rates" if ne: "rates \<noteq> []"
  proof (cases "?m = Fin 0")
    case True
    from ne obtain r where r: "r \<in> set rates"
      by (cases rates) auto
    with b(2) True assms have "js_le r (Fin 0)" "js_le (Fin 0) r"
      by auto
    then have "r = Fin 0"
      by (rule js_le_antisym)
    with r True show ?thesis by simp
  next
    case False
    with b(1) show ?thesis by simp
  qed
  then show ?thesis
    using b(2) by (simp add: maxRateOf_def)
qed

text \<open>A \<^const>\<open>NaN\<close> among the rates, or as start value, is the result of the fold.\<close>

lemma Math_max_NaN_left: "Math_max NaN b = NaN"
  by (simp add: Math_max_def)

lemma Math_max_NaN_right: "Math_max a NaN = NaN"
  by (simp add: Math_max_def)

lemma foldl_Math_max_from_NaN: "foldl Math_max NaN rates = NaN"
  by (induction rates) (simp_all add: Math_max_NaN_left)

lemma foldl_Math_max_NaN:
  "NaN \<in> set rates \<Longrightarrow> foldl Math_max acc rates = NaN"
proof (induction rates arbitrary: acc)
  case Nil
  then show ?case by simp
next
  case (Cons r rates)
  show ?case
  proof (cases "r = NaN")
    case True
    then show ?thesis
      by (simp add: Math_max_NaN_right foldl_Math_max_from_NaN)
  next
    case False
    with Cons.prems have "NaN \<in> set rates"
      by auto
    then show ?thesis
      by (simp add: Cons.IH)
  qed
qed

lemma foldl_Math_max_nonneg_iff:
  "js_le (Fin 0) (foldl Math_max (Fin 0) rates) \<longleftrightarrow> NaN \<notin> set rates"
proof
  assume "js_le (Fin 0) (foldl Math_max (Fin 0) rates)"
  then have "foldl Math_max (Fin 0) rates \<noteq> NaN"
    using js_le_not_NaN by blast
  then show "NaN \<notin> set rates"
    using foldl_Math_max_NaN [of rates "Fin 0"] by blast
next
  assume "NaN \<notin> set rates"
  then have "\<forall>r \<in> set rates. r \<noteq> NaN"
    by auto
  with foldl_Math_max_bounds [of "Fin 0" rates]
  show "js_le (Fin 0) (foldl Math_max (Fin 0) rates)"
    by simp
qed

lemma NaN_notin_rates:
  "NaN \<notin> set (map d_rate ds) \<longleftrightarrow> (\<forall>d \<in> set ds. d_rate d \<noteq> NaN)"
  by (induction ds) auto

lemma NaN_notin_qualifying_rates:
  "NaN \<notin> set (map d_rate (filter P ds)) \<longleftrightarrow>
     (\<forall>d \<in> set ds. P d \<longrightarrow> d_rate d \<noteq> NaN)"
  by (induction ds) auto

lemma getMaxDiscount_nonneg_iff:
  "js_le (Fin 0) (getMaxDiscount discounts) \<longleftrightarrow>
     (\<forall>d \<in> set discounts. d_rate d \<noteq> NaN)"
  unfolding getMaxDiscount_foldl foldl_Math_max_nonneg_iff by (rule NaN_notin_rates)

lemma getAppliedDiscount_nonneg_iff:
  "js_le (Fin 0) (getAppliedDiscount item) \<longleftrightarrow>
     (\<forall>d \<in> set (p_discounts (ci_product item)).
        d_quantity d \<le> ci_quantity item \<longrightarrow> d_rate d \<noteq> NaN)"
  unfolding getAppliedDiscount_def appliedDiscountLoop_foldl foldl_Math_max_nonneg_iff
  by (rule NaN_notin_qualifying_rates)

text \<open>The fold does not depend on the order of the rates.\<close>

lemma foldl_Math_max_perm:
  assumes "mset rs = mset rs'"
  shows "foldl Math_max acc rs = foldl Math_max acc rs'"
proof -
  have "fold (\<lambda>r m. Math_max m r) rs = fold (\<lambda>r m. Math_max m r) rs'"
  proof (rule fold_multiset_equiv [OF _ assms])
    fix x y
    show "(\<lambda>m. Math_max m x) \<circ> (\<lambda>m. Math_max m y) = (\<lambda>m. Math_max m y) \<circ> (\<lambda>m. Math_max m x)"
      by (rule ext) (simp add: Math_max_assoc Math_max_commute [of x y])
  qed
  then show ?thesis
    by (simp add: foldl_conv_fold)
qed

section \<open>The discount evaluator\<close>

text \<open>
  Claim C1. For a cart item whose tier rates are fractions between 0 and 1,
  \<^const>\<open>getAppliedDiscount\<close> returns the maximum rate among the tiers whose quantity
  threshold is at most the quantity of the item, and 0 when no tier qualifies, which
  includes an empty tier list.
\<close>

theorem getAppliedDiscount_max_qualifying:
  assumes "\<forall>d \<in> set (p_discounts (ci_product item)). isFraction (d_rate d)"
  shows "let qualifying = filter (\<lambda>d. d_quantity d \<le> ci_quantity item)
                                 (p_discounts (ci_product item))
         in (qualifying = [] \<longrightarrow> getAppliedDiscount item = Fin 0) \<and>
            (qualifying \<noteq> [] \<longrightarrow>
               maxRateOf (getAppliedDiscount item) (map d_rate qualifying))"
proof -
  let ?qualifying =
    "filter (\<lambda>d. d_quantity d \<le> ci_quantity item) (p_discounts (ci_product item))"
  from assms have "\<forall>r \<in> set (map d_rate ?qualifying). js_le (Fin 0) r"
    by (auto simp: isFraction_def)
  from foldl_Math_max_zero [OF this] show ?thesis
    by (simp add: getAppliedDiscount_def appliedDiscountLoop_foldl)
qed

theorem getAppliedDiscount_max_qualifying_witness:
  "list_all (\<lambda>d. isFraction (d_rate d))
     (p_discounts (ci_product \<lparr>ci_product = scenario_product, ci_quantity = 5\<rparr>)) \<and>
   getAppliedDiscount \<lparr>ci_product = scenario_product, ci_quantity = 5\<rparr> = Fin 0.2 \<and>
   maxRateOf (getAppliedDiscount \<lparr>ci_product = scenario_product, ci_quantity = 5\<rparr>)
     [Fin 0.1, Fin 0.2]"
  using getAppliedDiscount_max_qualifying
    [of "\<lparr>ci_product = scenario_product, ci_quantity = 5\<rparr>"]
  by (simp add: scenario_product_def scenario_discounts_def isFraction_def
      getAppliedDiscount_def Math_max_def maxRateOf_def)

text \<open>
  Claim C2. For a list of tiers whose rates are fractions between 0 and 1,
  \<^const>\<open>getMaxDiscount\<close> returns the largest rate of the list, and 0 on the empty
  list. The source has no operation that can throw (a \<^verbatim>\<open>reduce\<close> with a start value,
  \<^verbatim>\<open>Math.max\<close> of two numbers), so the function has a value on every list and the
  model has no error branch.
\<close>

theorem getMaxDiscount_max_rate:
  assumes "\<forall>d \<in> set discounts. isFraction (d_rate d)"
  shows "(discounts = [] \<longrightarrow> getMaxDiscount discounts = Fin 0) \<and>
         (discounts \<noteq> [] \<longrightarrow> maxRateOf (getMaxDiscount discounts) (map d_rate discounts))"
proof -
  from assms have "\<forall>r \<in> set (map d_rate discounts). js_le (Fin 0) r"
    by (auto simp: isFraction_def)
  from foldl_Math_max_zero [OF this] show ?thesis
    by (simp add: getMaxDiscount_foldl)
qed

theorem getMaxDiscount_max_rate_witness:
  "list_all (\<lambda>d. isFraction (d_rate d)) scenario_discounts \<and>
   getMaxDiscount scenario_discounts = Fin 0.2 \<and>
   maxRateOf (getMaxDiscount scenario_discounts) [Fin 0.1, Fin 0.2] \<and>
   getMaxDiscount [] = Fin 0"
  using getMaxDiscount_max_rate [of scenario_discounts] getMaxDiscount_max_rate [of "[]"]
  by (simp add: scenario_discounts_def isFraction_def getMaxDiscount_def Math_max_def
      maxRateOf_def)

text \<open>
  Claim C6. The applied discount of a cart item is the same for every permutation of
  the tier list of its product.
\<close>

theorem getAppliedDiscount_tier_order:
  assumes "mset discounts' = mset (p_discounts (ci_product item))"
  shows "getAppliedDiscount
           (item\<lparr>ci_product := (ci_product item)\<lparr>p_discounts := discounts'\<rparr>\<rparr>) =
         getAppliedDiscount item"
proof -
  let ?q = "\<lambda>d. d_quantity d \<le> ci_quantity item"
  from assms have "mset (map d_rate (filter ?q discounts')) =
      mset (map d_rate (filter ?q (p_discounts (ci_product item))))"
    by (metis mset_filter mset_map)
  then show ?thesis
    by (simp add: getAppliedDiscount_def appliedDiscountLoop_foldl foldl_Math_max_perm)
qed

theorem getAppliedDiscount_tier_order_witness:
  "mset (rev scenario_discounts) =
     mset (p_discounts (ci_product \<lparr>ci_product = scenario_product, ci_quantity = 5\<rparr>)) \<and>
   getAppliedDiscount
     \<lparr>ci_product = scenario_product\<lparr>p_discounts := rev scenario_discounts\<rparr>,
      ci_quantity = 5\<rparr> = Fin 0.2 \<and>
   getAppliedDiscount \<lparr>ci_product = scenario_product, ci_quantity = 5\<rparr> = Fin 0.2"
  using getAppliedDiscount_tier_order [of "rev scenario_discounts"
      "\<lparr>ci_product = scenario_product, ci_quantity = 5\<rparr>"]
  by (simp add: scenario_product_def scenario_discounts_def getAppliedDiscount_def
      Math_max_def)

text \<open>
  Claim C8. With a fixed tier list whose rates are all at least 0, the applied discount
  is monotone in the quantity of the item: for \<open>q1 \<le> q2\<close> the value at \<open>q1\<close> is at
  most the value at \<open>q2\<close>.
\<close>

theorem getAppliedDiscount_mono_quantity:
  assumes "q1 \<le> q2"
    and "\<forall>d \<in> set (p_discounts (ci_product item)). js_le (Fin 0) (d_rate d)"
  shows "js_le (getAppliedDiscount (item\<lparr>ci_quantity := q1\<rparr>))
               (getAppliedDiscount (item\<lparr>ci_quantity := q2\<rparr>))"
proof -
  let ?ds = "p_discounts (ci_product item)"
  let ?r1 = "map d_rate (filter (\<lambda>d. d_quantity d \<le> q1) ?ds)"
  let ?r2 = "map d_rate (filter (\<lambda>d. d_quantity d \<le> q2) ?ds)"
  from assms(2) have nn: "\<forall>r \<in> set ?r1. r \<noteq> NaN" "\<forall>r \<in> set ?r2. r \<noteq> NaN"
    using js_le_not_NaN by fastforce+
  have sub: "set ?r1 \<subseteq> set ?r2"
    using assms(1) by auto
  have b1: "foldl Math_max (Fin 0) ?r1 \<in> set (Fin 0 # ?r1)"
    using foldl_Math_max_bounds [of "Fin 0" ?r1] nn(1) by simp
  have b2: "\<forall>r \<in> set (Fin 0 # ?r2). js_le r (foldl Math_max (Fin 0) ?r2)"
    using foldl_Math_max_bounds [of "Fin 0" ?r2] nn(2) by simp
  from b1 sub have "foldl Math_max (Fin 0) ?r1 \<in> set (Fin 0 # ?r2)"
    by auto
  with b2 have "js_le (foldl Math_max (Fin 0) ?r1) (foldl Math_max (Fin 0) ?r2)"
    by blast
  then show ?thesis
    by (simp add: getAppliedDiscount_def appliedDiscountLoop_foldl)
qed

theorem getAppliedDiscount_mono_quantity_witness:
  "(2::int) \<le> 5 \<and>
   list_all (\<lambda>d. js_le (Fin 0) (d_rate d))
     (p_discounts (ci_product \<lparr>ci_product = scenario_product, ci_quantity = 1\<rparr>)) \<and>
   getAppliedDiscount \<lparr>ci_product = scenario_product, ci_quantity = 2\<rparr> = Fin 0.1 \<and>
   getAppliedDiscount \<lparr>ci_product = scenario_product, ci_quantity = 5\<rparr> = Fin 0.2 \<and>
   js_le (getAppliedDiscount \<lparr>ci_product = scenario_product, ci_quantity = 2\<rparr>)
         (getAppliedDiscount \<lparr>ci_product = scenario_product, ci_quantity = 5\<rparr>)"
  using getAppliedDiscount_mono_quantity
    [of 2 5 "\<lparr>ci_product = scenario_product, ci_quantity = 1\<rparr>"]
  by (simp add: scenario_product_def scenario_discounts_def getAppliedDiscount_def
      Math_max_def)

text \<open>
  Claim C9, as stated: for every input, also with rates outside the unit interval,
  \<^const>\<open>getMaxDiscount\<close> and \<^const>\<open>getAppliedDiscount\<close> return a value that is at
  least 0. A tier whose rate is \<^verbatim>\<open>NaN\<close> refutes it: \<^verbatim>\<open>Math.max(0, NaN)\<close> is
  \<^verbatim>\<open>NaN\<close>, and \<^verbatim>\<open>NaN >= 0\<close> is false.
\<close>

theorem discount_NaN_counterexample:
  "\<not> js_le (Fin 0) (getMaxDiscount [\<lparr>d_quantity = 1, d_rate = NaN\<rparr>]) \<and>
   \<not> js_le (Fin 0) (getAppliedDiscount
        \<lparr>ci_product = \<lparr>p_id = ''p1'', p_name = ''Product 1'', p_price = 10000, p_stock = 3,
                        p_discounts = [\<lparr>d_quantity = 1, d_rate = NaN\<rparr>]\<rparr>,
         ci_quantity = 1\<rparr>)"
  by (simp add: getMaxDiscount_def getAppliedDiscount_def Math_max_def)

text \<open>
  Claim C9, amended: for every input, also with rates that are negative, above 1 or
  infinite, \<^const>\<open>getMaxDiscount\<close> returns a value that is at least 0 exactly when
  no tier rate is \<^verbatim>\<open>NaN\<close>, and \<^const>\<open>getAppliedDiscount\<close> exactly when no tier
  whose threshold is met has the rate \<^verbatim>\<open>NaN\<close>.
\<close>

theorem discount_nonneg_iff_no_NaN:
  "(js_le (Fin 0) (getMaxDiscount discounts) \<longleftrightarrow>
      (\<forall>d \<in> set discounts. d_rate d \<noteq> NaN)) \<and>
   (js_le (Fin 0) (getAppliedDiscount item) \<longleftrightarrow>
      (\<forall>d \<in> set (p_discounts (ci_product item)).
         d_quantity d \<le> ci_quantity item \<longrightarrow> d_rate d \<noteq> NaN))"
  using getMaxDiscount_nonneg_iff getAppliedDiscount_nonneg_iff by (rule conjI)

theorem discount_nonneg_iff_no_NaN_witness:
  "list_all (\<lambda>d. d_rate d \<noteq> NaN) wild_discounts \<and>
   js_le (Fin 0) (getMaxDiscount wild_discounts) \<and>
   getMaxDiscount wild_discounts = Fin 7 \<and>
   js_le (Fin 0) (getAppliedDiscount
      \<lparr>ci_product = scenario_product\<lparr>p_discounts := wild_discounts\<rparr>, ci_quantity = 2\<rparr>) \<and>
   getAppliedDiscount
      \<lparr>ci_product = scenario_product\<lparr>p_discounts := wild_discounts\<rparr>, ci_quantity = 2\<rparr> = Fin 0"
proof -
  let ?item =
    "\<lparr>ci_product = scenario_product\<lparr>p_discounts := wild_discounts\<rparr>, ci_quantity = 2\<rparr>"
  note at_wild = discount_nonneg_iff_no_NaN [of wild_discounts ?item]
  have no_NaN: "\<forall>d \<in> set wild_discounts. d_rate d \<noteq> NaN"
    by (simp add: wild_discounts_def)
  have ds: "p_discounts (ci_product ?item) = wild_discounts"
    by (simp add: scenario_product_def)
  have "js_le (Fin 0) (getMaxDiscount wild_discounts)"
    using at_wild [THEN conjunct1, THEN iffD2, OF no_NaN] .
  moreover have "js_le (Fin 0) (getAppliedDiscount ?item)"
    by (rule at_wild [THEN conjunct2, THEN iffD2]) (simp add: ds no_NaN)
  moreover have "getMaxDiscount wild_discounts = Fin 7"
    by (simp add: wild_discounts_def getMaxDiscount_def Math_max_def)
  moreover have "getAppliedDiscount ?item = Fin 0"
    by (simp add: wild_discounts_def scenario_product_def getAppliedDiscount_def
        Math_max_def)
  moreover have "list_all (\<lambda>d. d_rate d \<noteq> NaN) wild_discounts"
    by (simp add: wild_discounts_def)
  ultimately show ?thesis
    by (intro conjI)
qed

section \<open>Stock availability and the add-to-cart button\<close>

lemma find_distinct_key:
  assumes "distinct (map f xs)" "x \<in> set xs" "f x = k"
  shows "find (\<lambda>y. f y = k) xs = Some x"
  using assms by (induction xs) (auto simp: rev_image_eqI)

text \<open>
  Claim C3. In a cart with at most one line per product id,
  \<^const>\<open>getRemainingStock\<close> returns the stock of the product minus the quantity of the
  line with the id of the product, and the stock itself when the cart has no such line.
  The stock, the quantity of the line and their difference are safe integers, where the
  double subtraction of the code is exact.
\<close>

theorem getRemainingStock_cart_line:
  assumes "distinct (map (\<lambda>item. p_id (ci_product item)) cart)"
    and "isSafeInteger (p_stock product)"
  shows "(\<forall>item \<in> set cart.
            p_id (ci_product item) = p_id product \<and>
            isSafeInteger (ci_quantity item) \<and>
            isSafeInteger (p_stock product - ci_quantity item) \<longrightarrow>
            getRemainingStock cart product = p_stock product - ci_quantity item) \<and>
         ((\<forall>item \<in> set cart. p_id (ci_product item) \<noteq> p_id product) \<longrightarrow>
            getRemainingStock cart product = p_stock product)"
proof (intro conjI ballI impI)
  fix item
  assume "item \<in> set cart"
    and "p_id (ci_product item) = p_id product \<and>
         isSafeInteger (ci_quantity item) \<and>
         isSafeInteger (p_stock product - ci_quantity item)"
  then have "item \<in> set cart" "p_id (ci_product item) = p_id product"
    by simp_all
  with assms(1) have "find (\<lambda>y. p_id (ci_product y) = p_id product) cart = Some item"
    by (rule find_distinct_key)
  then show "getRemainingStock cart product = p_stock product - ci_quantity item"
    by (simp add: getRemainingStock_def)
next
  assume "\<forall>item \<in> set cart. p_id (ci_product item) \<noteq> p_id product"
  then have "find (\<lambda>y. p_id (ci_product y) = p_id product) cart = None"
    by (simp add: find_None_iff)
  then show "getRemainingStock cart product = p_stock product"
    by (simp add: getRemainingStock_def)
qed

theorem getRemainingStock_cart_line_witness:
  "distinct (map (\<lambda>item. p_id (ci_product item))
               [\<lparr>ci_product = scenario_product, ci_quantity = 2\<rparr>]) \<and>
   isSafeInteger (p_stock scenario_product) \<and>
   isSafeInteger (ci_quantity \<lparr>ci_product = scenario_product, ci_quantity = 2\<rparr>) \<and>
   isSafeInteger (p_stock scenario_product -
                  ci_quantity \<lparr>ci_product = scenario_product, ci_quantity = 2\<rparr>) \<and>
   getRemainingStock [\<lparr>ci_product = scenario_product, ci_quantity = 2\<rparr>] scenario_product
     = 3 - 2 \<and>
   isSafeInteger (p_stock (scenario_product\<lparr>p_id := ''p2'', p_stock := 5\<rparr>)) \<and>
   getRemainingStock [\<lparr>ci_product = scenario_product, ci_quantity = 2\<rparr>]
     (scenario_product\<lparr>p_id := ''p2'', p_stock := 5\<rparr>) = 5"
  using getRemainingStock_cart_line
      [of "[\<lparr>ci_product = scenario_product, ci_quantity = 2\<rparr>]" scenario_product]
    getRemainingStock_cart_line
      [of "[\<lparr>ci_product = scenario_product, ci_quantity = 2\<rparr>]"
          "scenario_product\<lparr>p_id := ''p2'', p_stock := 5\<rparr>"]
  by (simp add: scenario_product_def isSafeInteger_def)

lemma text_addToCart_neq_soldOut: "text_addToCart \<noteq> text_soldOut"
  by (simp add: text_addToCart_def text_soldOut_def)

text \<open>
  Claim C4. The add-to-cart button of a product card is disabled, and carries the
  sold-out caption, exactly when the remaining stock computed for the card is at most
  0; when the remaining stock is positive the button is enabled and carries the
  add-to-cart caption.
\<close>

theorem addToCartButton_gate:
  "(disabled (addToCartButton cart product) \<longleftrightarrow> getRemainingStock cart product \<le> 0) \<and>
   (label (addToCartButton cart product) = text_soldOut \<longleftrightarrow>
      getRemainingStock cart product \<le> 0) \<and>
   (getRemainingStock cart product > 0 \<longrightarrow>
      \<not> disabled (addToCartButton cart product) \<and>
      label (addToCartButton cart product) = text_addToCart)"
  using text_addToCart_neq_soldOut by (auto simp: addToCartButton_def Let_def)

theorem addToCartButton_gate_witness:
  "getRemainingStock [] (scenario_product\<lparr>p_stock := 5\<rparr>) = 5 \<and>
   \<not> disabled (addToCartButton [] (scenario_product\<lparr>p_stock := 5\<rparr>)) \<and>
   label (addToCartButton [] (scenario_product\<lparr>p_stock := 5\<rparr>)) = text_addToCart \<and>
   getRemainingStock [\<lparr>ci_product = scenario_product, ci_quantity = 3\<rparr>] scenario_product = 0 \<and>
   disabled (addToCartButton [\<lparr>ci_product = scenario_product, ci_quantity = 3\<rparr>]
               scenario_product) \<and>
   label (addToCartButton [\<lparr>ci_product = scenario_product, ci_quantity = 3\<rparr>]
            scenario_product) = text_soldOut"
  using addToCartButton_gate [of "[]" "scenario_product\<lparr>p_stock := 5\<rparr>"]
    addToCartButton_gate
      [of "[\<lparr>ci_product = scenario_product, ci_quantity = 3\<rparr>]" scenario_product]
  by (simp add: scenario_product_def getRemainingStock_def)

section \<open>Cart line controls\<close>

text \<open>
  Claim C10. On a cart line whose quantity is a safe integer, the decrement control
  calls \<^verbatim>\<open>updateQuantity\<close> with the quantity of the line minus 1 and the increment
  control with the quantity plus 1; neither control is ever disabled and the component
  clamps nothing, so on a line with quantity 1 the decrement control asks for
  quantity 0.
\<close>

theorem quantity_controls_request:
  assumes "isSafeInteger (ci_quantity item)"
  shows "onClick (decrementButton item) =
           UpdateQuantity (p_id (ci_product item)) (ci_quantity item - 1) \<and>
         onClick (incrementButton item) =
           UpdateQuantity (p_id (ci_product item)) (ci_quantity item + 1) \<and>
         \<not> disabled (decrementButton item) \<and> \<not> disabled (incrementButton item) \<and>
         (ci_quantity item = 1 \<longrightarrow>
            onClick (decrementButton item) = UpdateQuantity (p_id (ci_product item)) 0)"
  by (simp add: decrementButton_def incrementButton_def)

theorem quantity_controls_request_witness:
  "isSafeInteger (ci_quantity \<lparr>ci_product = scenario_product, ci_quantity = 1\<rparr>) \<and>
   isSafeInteger (ci_quantity \<lparr>ci_product = scenario_product, ci_quantity = 0\<rparr>) \<and>
   ci_quantity \<lparr>ci_product = scenario_product, ci_quantity = 1\<rparr> = 1 \<and>
   onClick (decrementButton \<lparr>ci_product = scenario_product, ci_quantity = 1\<rparr>) =
     UpdateQuantity ''p1'' 0 \<and>
   onClick (incrementButton \<lparr>ci_product = scenario_product, ci_quantity = 1\<rparr>) =
     UpdateQuantity ''p1'' 2 \<and>
   onClick (decrementButton \<lparr>ci_product = scenario_product, ci_quantity = 0\<rparr>) =
     UpdateQuantity ''p1'' (- 1)"
  using quantity_controls_request [of "\<lparr>ci_product = scenario_product, ci_quantity = 1\<rparr>"]
    quantity_controls_request [of "\<lparr>ci_product = scenario_product, ci_quantity = 0\<rparr>"]
  by (simp add: scenario_product_def isSafeInteger_def)

section \<open>Selection widgets\<close>

text \<open>
  Claim C7. The label of a coupon whose discount value is a safe integer is the decimal
  numeral of the value followed by the currency suffix when the discount type is
  \<^verbatim>\<open>amount\<close>, and followed by a percent sign when the discount type is
  \<^verbatim>\<open>percentage\<close>, in the option of the coupon and in the confirmation line of the
  applied coupon.
\<close>

theorem coupon_label:
  assumes "index < length coupons" and "coupon = coupons ! index"
    and "isSafeInteger (c_discountValue coupon)"
  shows "(c_discountType coupon = ''amount'' \<longrightarrow>
            opt_text (couponOptions coupons ! Suc index) =
              c_name coupon @ '' - '' @ numberToString (c_discountValue coupon) @ text_won \<and>
            appliedCouponLine (Some coupon) =
              Some (text_appliedCoupon @ c_name coupon @ ''('' @
                    numberToString (c_discountValue coupon) @ text_won @
                    '' '' @ text_discountClose)) \<and>
         (c_discountType coupon = ''percentage'' \<longrightarrow>
            opt_text (couponOptions coupons ! Suc index) =
              c_name coupon @ '' - '' @ numberToString (c_discountValue coupon) @ ''%'' \<and>
            appliedCouponLine (Some coupon) =
              Some (text_appliedCoupon @ c_name coupon @ ''('' @
                    numberToString (c_discountValue coupon) @ ''%'' @
                    '' '' @ text_discountClose))"
  using assms(1,2) by (simp add: couponOptions_def appliedCouponLine_def nth_enumerate_eq)

theorem coupon_label_witness:
  "(0::nat) < length scenario_coupons \<and> Suc 0 < length scenario_coupons \<and>
   isSafeInteger (c_discountValue (scenario_coupons ! 0)) \<and>
   isSafeInteger (c_discountValue (scenario_coupons ! Suc 0)) \<and>
   opt_text (couponOptions scenario_coupons ! Suc 0) =
     ''Off 1000 - 1000'' @ [CHR 0xEC, CHR 0x9B, CHR 0x90] \<and>
   appliedCouponLine (Some (scenario_coupons ! 0)) =
     Some (text_appliedCoupon @ ''Off 1000(1000'' @ [CHR 0xEC, CHR 0x9B, CHR 0x90] @
           '' '' @ text_discountClose) \<and>
   opt_text (couponOptions scenario_coupons ! Suc (Suc 0)) = ''Off 10 - 10%'' \<and>
   appliedCouponLine (Some (scenario_coupons ! Suc 0)) =
     Some (text_appliedCoupon @ ''Off 10(10% '' @ text_discountClose)"
proof -
  have n: "numberToString 1000 = ''1000''" "numberToString 10 = ''10''"
    by code_simp+
  show ?thesis
    using coupon_label [of 0 scenario_coupons "scenario_coupons ! 0"]
      coupon_label [of "Suc 0" scenario_coupons "scenario_coupons ! Suc 0"]
    by (simp add: scenario_coupons_def n text_won_def isSafeInteger_def)
qed

subsection \<open>Decimal numerals parse back\<close>

lemma of_char_digitChar: "d < 10 \<Longrightarrow> of_char (digitChar d) = (48 + d :: nat)"
  by (simp add: digitChar_def)

lemma digitValue_digitChar: "d < 10 \<Longrightarrow> digitValue (digitChar d) = Some d"
  by (simp add: digitValue_def of_char_digitChar)

lemma isDecimal_digitChar: "d < 10 \<Longrightarrow> isDecimal (digitChar d)"
  by (auto simp: isDecimal_def)

lemma isDecimal_radix: "isDecimal c \<Longrightarrow> isRadixDigit 10 c"
  by (auto simp: isDecimal_def isRadixDigit_def digitValue_digitChar)

lemma isDecimal_of_char:
  "isDecimal c \<Longrightarrow> 48 \<le> (of_char c :: nat) \<and> (of_char c :: nat) \<le> 57"
  by (auto simp: isDecimal_def of_char_digitChar)

lemma isDecimal_not_sign:
  "isDecimal c \<Longrightarrow>
     c \<noteq> CHR ''+'' \<and> c \<noteq> CHR ''-'' \<and> c \<noteq> CHR ''x'' \<and> c \<noteq> CHR ''X''"
  using isDecimal_of_char [of c] by auto

lemma natToString_decimal: "\<forall>c \<in> set (natToString n). isDecimal c"
proof (induction n rule: natToString.induct)
  case (1 n)
  show ?case
  proof (cases "n < 10")
    case True
    then show ?thesis
      by (subst natToString.simps) (simp add: isDecimal_digitChar)
  next
    case False
    with "1" show ?thesis
      by (subst natToString.simps) (simp add: isDecimal_digitChar)
  qed
qed

lemma natToString_not_Nil: "natToString n \<noteq> []"
  by (subst natToString.simps) simp

lemma digitsValue_snoc:
  "digitsValue R (Z @ [c]) = digitsValue R Z * R + the (digitValue c)"
  by (simp add: digitsValue_def)

lemma digitsValue_natToString: "digitsValue 10 (natToString n) = n"
proof (induction n rule: natToString.induct)
  case (1 n)
  show ?case
  proof (cases "n < 10")
    case True
    then show ?thesis
      by (subst natToString.simps) (simp add: digitsValue_def digitValue_digitChar)
  next
    case False
    with "1" have "digitsValue 10 (natToString (n div 10)) = n div 10"
      by simp
    with False show ?thesis
      by (subst natToString.simps) (simp add: digitsValue_snoc digitValue_digitChar)
  qed
qed

lemma whiteSpaceLength_decimal:
  assumes "isDecimal c"
  shows "whiteSpaceLength (c # cs) = 0"
proof -
  from assms have "48 \<le> (of_char c :: nat)" "(of_char c :: nat) \<le> 57"
    using isDecimal_of_char by auto
  then show ?thesis
    by (cases cs; cases "tl cs") (auto simp: whiteSpaceLength_def)
qed

lemma trimStart_decimal: "isDecimal c \<Longrightarrow> trimStart (c # cs) = c # cs"
  by (subst trimStart.simps) (simp add: whiteSpaceLength_decimal)

lemma parseInt_decimals:
  assumes "s \<noteq> []" "\<forall>c \<in> set s. isDecimal c"
  shows "parseInt s = Some (int (digitsValue 10 s))"
proof -
  from assms obtain c cs where s: "s = c # cs"
    by (cases s) auto
  with assms have c: "isDecimal c"
    by simp
  have trim: "trimStart s = s"
    using c s by (simp add: trimStart_decimal)
  have sign: "hd s \<noteq> CHR ''+''" "hd s \<noteq> CHR ''-''"
    using c s isDecimal_not_sign by auto
  have nohex: "take 2 s \<noteq> ''0x''" "take 2 s \<noteq> ''0X''"
  proof -
    have "\<forall>c \<in> set (take 2 s). isDecimal c"
      using assms(2) by (meson in_set_takeD)
    then show "take 2 s \<noteq> ''0x''" "take 2 s \<noteq> ''0X''"
      using isDecimal_not_sign by fastforce+
  qed
  have run: "takeWhile (isRadixDigit 10) s = s"
    using assms(2) by (simp add: isDecimal_radix takeWhile_eq_all_conv)
  show ?thesis
    using assms(1) by (simp add: parseInt_def trim sign nohex run)
qed

lemma parseInt_numberToString: "parseInt (numberToString (int i)) = Some (int i)"
  by (simp add: numberToString_def parseInt_decimals natToString_not_Nil
      natToString_decimal digitsValue_natToString)

lemma parseInt_blank: "parseInt [] = None"
  by (simp add: parseInt_def trimStart.simps whiteSpaceLength_def)

text \<open>
  Claim C5. For every array of memberships, and likewise of coupons, and every option
  of the selection widget, the change handler hands the callback \<^verbatim>\<open>null\<close> for the
  blank option and the array element of the option otherwise. For any value string it
  hands over the element at the position \<^const>\<open>parseInt\<close> reads from the value when
  that position lies in the array, and \<^verbatim>\<open>null\<close> when there is no such position:
  the value is blank, is not a number, or is a number outside the array.
\<close>

theorem handleChange_selection:
  "(\<forall>k < length (membershipOptions memberships).
      ApplyMembership_handleChange memberships (opt_value (membershipOptions memberships ! k)) =
        (if k = 0 then None else Some (memberships ! (k - 1)))) \<and>
   (\<forall>k < length (couponOptions coupons).
      ApplyCoupon_handleChange coupons (opt_value (couponOptions coupons ! k)) =
        (if k = 0 then None else Some (coupons ! (k - 1)))) \<and>
   ApplyMembership_handleChange memberships v =
     (case parseInt v of
        None \<Rightarrow> None
      | Some n \<Rightarrow>
          if 0 \<le> n \<and> n < int (length memberships) then Some (memberships ! nat n) else None) \<and>
   ApplyCoupon_handleChange coupons v =
     (case parseInt v of
        None \<Rightarrow> None
      | Some n \<Rightarrow>
          if 0 \<le> n \<and> n < int (length coupons) then Some (coupons ! nat n) else None)"
proof (intro conjI allI impI)
  fix k
  assume "k < length (membershipOptions memberships)"
  then show
    "ApplyMembership_handleChange memberships (opt_value (membershipOptions memberships ! k)) =
      (if k = 0 then None else Some (memberships ! (k - 1)))"
    by (cases k)
      (simp_all add: membershipOptions_def ApplyMembership_handleChange_def orNull_def
        parseInt_blank parseInt_numberToString nth_enumerate_eq)
next
  fix k
  assume "k < length (couponOptions coupons)"
  then show "ApplyCoupon_handleChange coupons (opt_value (couponOptions coupons ! k)) =
      (if k = 0 then None else Some (coupons ! (k - 1)))"
    by (cases k)
      (simp_all add: couponOptions_def ApplyCoupon_handleChange_def orNull_def
        parseInt_blank parseInt_numberToString nth_enumerate_eq)
next
  show "ApplyMembership_handleChange memberships v =
     (case parseInt v of
        None \<Rightarrow> None
      | Some n \<Rightarrow>
          if 0 \<le> n \<and> n < int (length memberships) then Some (memberships ! nat n) else None)"
    by (simp add: ApplyMembership_handleChange_def orNull_def split: option.splits)
next
  show "ApplyCoupon_handleChange coupons v =
     (case parseInt v of
        None \<Rightarrow> None
      | Some n \<Rightarrow>
          if 0 \<le> n \<and> n < int (length coupons) then Some (coupons ! nat n) else None)"
    by (simp add: ApplyCoupon_handleChange_def orNull_def split: option.splits)
qed

theorem handleChange_selection_witness:
  "map opt_value (membershipOptions scenario_memberships) = ['''', ''0'', ''1''] \<and>
   ApplyMembership_handleChange scenario_memberships '''' = None \<and>
   ApplyMembership_handleChange scenario_memberships ''1'' = Some (scenario_memberships ! 1) \<and>
   ApplyMembership_handleChange scenario_memberships ''2'' = None \<and>
   ApplyMembership_handleChange scenario_memberships ''-1'' = None \<and>
   map opt_value (couponOptions scenario_coupons) = ['''', ''0'', ''1''] \<and>
   ApplyCoupon_handleChange scenario_coupons '''' = None \<and>
   ApplyCoupon_handleChange scenario_coupons ''0'' = Some (scenario_coupons ! 0) \<and>
   ApplyCoupon_handleChange scenario_coupons ''2'' = None"
proof -
  note at_2 = handleChange_selection [of scenario_memberships scenario_coupons "''2''"]
  note at_minus_1 = handleChange_selection [of scenario_memberships scenario_coupons "''-1''"]
  have v: "map opt_value (membershipOptions scenario_memberships) = ['''', ''0'', ''1'']"
    "map opt_value (couponOptions scenario_coupons) = ['''', ''0'', ''1'']"
    by code_simp+
  have o: "opt_value (membershipOptions scenario_memberships ! 0) = ''''"
    "opt_value (membershipOptions scenario_memberships ! 2) = ''1''"
    "opt_value (couponOptions scenario_coupons ! 0) = ''''"
    "opt_value (couponOptions scenario_coupons ! 1) = ''0''"
    by code_simp+
  have l: "length (membershipOptions scenario_memberships) = 3"
    "length (couponOptions scenario_coupons) = 3"
    by code_simp+
  have p: "parseInt ''2'' = Some 2" "parseInt ''-1'' = Some (- 1)"
    by code_simp+
  have n: "length scenario_memberships = 2" "length scenario_coupons = 2"
    by (simp_all add: scenario_memberships_def scenario_coupons_def)
  have "ApplyMembership_handleChange scenario_memberships '''' = None"
    using at_2 [THEN conjunct1, rule_format, of 0] l o by simp
  moreover have
    "ApplyMembership_handleChange scenario_memberships ''1'' = Some (scenario_memberships ! 1)"
    using at_2 [THEN conjunct1, rule_format, of 2] l o by simp
  moreover have "ApplyCoupon_handleChange scenario_coupons '''' = None"
    using at_2 [THEN conjunct2, THEN conjunct1, rule_format, of 0] l o by simp
  moreover have "ApplyCoupon_handleChange scenario_coupons ''0'' = Some (scenario_coupons ! 0)"
    using at_2 [THEN conjunct2, THEN conjunct1, rule_format, of 1] l o by simp
  moreover have "ApplyMembership_handleChange scenario_memberships ''2'' = None"
    "ApplyCoupon_handleChange scenario_coupons ''2'' = None"
    using at_2 p n by simp_all
  moreover have "ApplyMembership_handleChange scenario_memberships ''-1'' = None"
    using at_minus_1 p n by simp
  ultimately show ?thesis
    using v by simp
qed

end
